theory Spec2Isabelle
  imports Main
begin

section \<open>Package throw: the classified error and the raise primitives\<close>

subsection \<open>Data model\<close>

text \<open>
  Go's \<open>int\<close> is modelled as \<open>int\<close>; no arithmetic is done on error codes, they are only
  compared. \<open>FallbackErrorIndex\<close> is \<open>math.MinInt\<close> of a 64-bit platform.
\<close>

definition FallbackErrorIndex :: int where
  "FallbackErrorIndex = - (2 ^ 63)"

text \<open>
  A Go map is a reference: copying an \<open>Error\<close> struct copies the reference, not the
  entries. The maps therefore live in a store (a list of maps, the address of a map being
  its position), and the field \<open>Context\<close> holds \<open>None\<close> for the nil map or the address
  of a map of the store. \<open>make(map[string]interface{})\<close> appends an empty map.
\<close>

type_synonym 'v ctxmap = "string \<rightharpoonup> 'v"

type_synonym 'v heap = "'v ctxmap list"

definition makeMap :: "'v heap \<Rightarrow> nat \<times> 'v heap" where
  "makeMap h = (length h, h @ [Map.empty])"

definition mapAssign :: "nat \<Rightarrow> string \<Rightarrow> 'v \<Rightarrow> 'v heap \<Rightarrow> 'v heap" where
  "mapAssign a key val h = h[a := (h ! a)(key \<mapsto> val)]"

record Error =
  Index :: int
  Message :: string
  Stack :: string
  Context :: "nat option"

text \<open>
  What a panic carries: the marker \<open>throw.Pass{}\<close>, a \<open>throw.Error\<close> value, or any
  other value, of which the model keeps what \<open>fmt\<close> prints for \<open>%v\<close> and for \<open>%T\<close>.
\<close>

datatype raw = Raw (fmt_v: string) (fmt_T: string)

datatype payload = PassVal | ErrorVal Error | OtherVal raw

text \<open>The outcome of a call: it returns a value, or it panics with a payload.\<close>

datatype 'a result = Ret 'a | Panic payload

subsection \<open>Context operations\<close>

definition WithContext :: "Error \<Rightarrow> string \<Rightarrow> 'v \<Rightarrow> 'v heap \<Rightarrow> Error \<times> 'v heap" where
  "WithContext e key val h =
     (case Context e of
        None \<Rightarrow> (let (a, h1) = makeMap h in (e\<lparr>Context := Some a\<rparr>, mapAssign a key val h1))
      | Some a \<Rightarrow> (e, mapAssign a key val h))"

definition WithContextMap :: "Error \<Rightarrow> 'v ctxmap \<Rightarrow> 'v heap \<Rightarrow> Error \<times> 'v heap" where
  "WithContextMap e ctx h =
     (case Context e of
        None \<Rightarrow> (let (a, h1) = makeMap h in (e\<lparr>Context := Some a\<rparr>, h1[a := (h1 ! a) ++ ctx]))
      | Some a \<Rightarrow> (e, h[a := (h ! a) ++ ctx]))"

text \<open>\<open>GetContext\<close> returns \<open>None\<close> for Go's \<open>(nil, false)\<close> and \<open>Some v\<close> for \<open>(v, true)\<close>.\<close>

definition GetContext :: "Error \<Rightarrow> string \<Rightarrow> 'v heap \<Rightarrow> 'v option" where
  "GetContext e key h = (case Context e of None \<Rightarrow> None | Some a \<Rightarrow> (h ! a) key)"

definition HasContext :: "Error \<Rightarrow> string \<Rightarrow> 'v heap \<Rightarrow> bool" where
  "HasContext e key h = (case Context e of None \<Rightarrow> False | Some a \<Rightarrow> (h ! a) key \<noteq> None)"

definition Error_string :: "Error \<Rightarrow> string" where
  "Error_string e = Message e"

text \<open>
  An error value is well formed in a store when its context is nil or an address of the
  store (Go has no dangling map references).
\<close>

definition wellFormed :: "Error \<Rightarrow> 'v heap \<Rightarrow> bool" where
  "wellFormed e h = (case Context e of None \<Rightarrow> True | Some a \<Rightarrow> a < length h)"

subsection \<open>Raising\<close>

text \<open>
  \<open>runtime.Stack\<close> is the environment's: \<open>rt n\<close> is the text it writes into a buffer of
  \<open>n\<close> bytes at the point of the call.
\<close>

definition GetPanicStack :: "(nat \<Rightarrow> string) \<Rightarrow> string" where
  "GetPanicStack rt =
     (let initialSize = 1024; buf = rt initialSize
      in if length buf = initialSize then rt (initialSize * 2) else buf)"

definition throw_Index :: "(nat \<Rightarrow> string) \<Rightarrow> int \<Rightarrow> string \<Rightarrow> 'a result" where
  "throw_Index rt index message =
     Panic (ErrorVal \<lparr>Index = index, Message = message, Stack = GetPanicStack rt, Context = None\<rparr>)"

definition throw_IndexWithContext ::
  "(nat \<Rightarrow> string) \<Rightarrow> int \<Rightarrow> string \<Rightarrow> string \<Rightarrow> 'v \<Rightarrow> 'v heap \<Rightarrow> 'a result \<times> 'v heap" where
  "throw_IndexWithContext rt index message key ctxValue h =
     (let (a, h1) = makeMap h
      in (Panic (ErrorVal \<lparr>Index = index, Message = message, Stack = GetPanicStack rt,
                          Context = Some a\<rparr>),
          mapAssign a key ctxValue h1))"

definition throw_IndexNoStack :: "int \<Rightarrow> string \<Rightarrow> 'a result" where
  "throw_IndexNoStack index message =
     Panic (ErrorVal \<lparr>Index = index, Message = message, Stack = [], Context = None\<rparr>)"

definition throw_New :: "(nat \<Rightarrow> string) \<Rightarrow> string \<Rightarrow> 'a result" where
  "throw_New rt message = throw_Index rt FallbackErrorIndex message"

text \<open>
  A Go \<open>error\<close> argument is \<open>None\<close> for nil and \<open>Some m\<close> for an error whose \<open>Error()\<close>
  returns \<open>m\<close>.
\<close>

definition throw_Err :: "(nat \<Rightarrow> string) \<Rightarrow> string option \<Rightarrow> unit result" where
  "throw_Err rt err =
     (case err of Some m \<Rightarrow> throw_Index rt FallbackErrorIndex m | None \<Rightarrow> Ret ())"

definition ValueErr :: "(nat \<Rightarrow> string) \<Rightarrow> 'a \<Rightarrow> string option \<Rightarrow> 'a result" where
  "ValueErr rt val err =
     (case err of Some m \<Rightarrow> throw_Index rt FallbackErrorIndex m | None \<Rightarrow> Ret val)"

section \<open>Package try: the dispatch engine\<close>

subsection \<open>Callbacks and the engine\<close>

text \<open>
  The closures handed to the engine (protected block, handlers, filters, finalizer) read
  and write the variables they capture and may reach the context maps, so they are
  functions on a world made of the map store and the captured variables. Each of them
  returns or panics. They are taken to terminate.
\<close>

record ('v, 'u) world =
  heap :: "'v heap"
  vars :: 'u

type_synonym ('v, 'u) Func = "('v, 'u) world \<Rightarrow> unit result \<times> ('v, 'u) world"

type_synonym ('v, 'u) ErrorHandler = "Error \<Rightarrow> ('v, 'u) Func"

type_synonym ('v, 'u) ErrorFilter =
  "Error \<Rightarrow> ('v, 'u) world \<Rightarrow> bool result \<times> ('v, 'u) world"

record ('v, 'u) Try =
  specificHandlers :: "int \<rightharpoonup> ('v, 'u) ErrorHandler"
  groupHandlers :: "int \<rightharpoonup> ('v, 'u) ErrorHandler list"
  globalHandler :: "('v, 'u) ErrorHandler option"
  fallbackHandler :: "('v, 'u) ErrorHandler option"
  tryFunc :: "('v, 'u) Func option"
  filters :: "('v, 'u) ErrorFilter list"

subsection \<open>Registration\<close>

text \<open>
  \<open>Run\<close> returns a pointer and the registration methods have pointer receivers: the
  engines live in a store, a \<open>*Try\<close> is a position in it, and every method returns the
  pointer it hands back together with the store it leaves. A nil handler or filter is
  \<open>None\<close>.
\<close>

definition Run :: "('v, 'u) Func option \<Rightarrow> ('v, 'u) Try list \<Rightarrow> nat \<times> ('v, 'u) Try list" where
  "Run tryHandler s =
     (length s,
      s @ [\<lparr>specificHandlers = Map.empty, groupHandlers = Map.empty, globalHandler = None,
            fallbackHandler = None, tryFunc = tryHandler, filters = []\<rparr>])"

definition try_Index ::
  "nat \<Rightarrow> int \<Rightarrow> ('v, 'u) ErrorHandler option \<Rightarrow> ('v, 'u) Try list \<Rightarrow> nat \<times> ('v, 'u) Try list" where
  "try_Index ts index handler s =
     (case handler of
        Some h \<Rightarrow>
          if index \<noteq> 0 \<and> index \<noteq> FallbackErrorIndex
          then (ts, s[ts := (s ! ts)\<lparr>specificHandlers := (specificHandlers (s ! ts))(index \<mapsto> h)\<rparr>])
          else (ts, s)
      | None \<Rightarrow> (ts, s))"

definition Catch ::
  "nat \<Rightarrow> ('v, 'u) ErrorHandler option \<Rightarrow> ('v, 'u) Try list \<Rightarrow> nat \<times> ('v, 'u) Try list" where
  "Catch ts handler s =
     (case handler of
        Some h \<Rightarrow> (ts, s[ts := (s ! ts)\<lparr>globalHandler := Some h\<rparr>])
      | None \<Rightarrow> (ts, s))"

definition Unknown ::
  "nat \<Rightarrow> ('v, 'u) ErrorHandler option \<Rightarrow> ('v, 'u) Try list \<Rightarrow> nat \<times> ('v, 'u) Try list" where
  "Unknown ts handler s =
     (case handler of
        Some h \<Rightarrow> (ts, s[ts := (s ! ts)\<lparr>fallbackHandler := Some h\<rparr>])
      | None \<Rightarrow> (ts, s))"

text \<open>
  The loop of \<open>Group\<close>. Reading a key the map does not have gives the nil slice, and
  \<open>append\<close> to it gives the one-element slice.
\<close>

fun Group_loop ::
  "int list \<Rightarrow> ('v, 'u) ErrorHandler \<Rightarrow> (int \<rightharpoonup> ('v, 'u) ErrorHandler list) \<Rightarrow>
   (int \<rightharpoonup> ('v, 'u) ErrorHandler list)" where
  "Group_loop [] handler gh = gh"
| "Group_loop (index # rest) handler gh =
     Group_loop rest handler
       (if index \<noteq> 0 \<and> index \<noteq> FallbackErrorIndex
        then gh(index \<mapsto> (case gh index of None \<Rightarrow> [] | Some hs \<Rightarrow> hs) @ [handler])
        else gh)"

definition Group ::
  "nat \<Rightarrow> int list \<Rightarrow> ('v, 'u) ErrorHandler option \<Rightarrow> ('v, 'u) Try list \<Rightarrow>
   nat \<times> ('v, 'u) Try list" where
  "Group ts grp handler s =
     (case handler of
        Some h \<Rightarrow>
          if length grp > 0
          then (ts, s[ts := (s ! ts)\<lparr>groupHandlers := Group_loop grp h (groupHandlers (s ! ts))\<rparr>])
          else (ts, s)
      | None \<Rightarrow> (ts, s))"

definition Filter ::
  "nat \<Rightarrow> ('v, 'u) ErrorFilter option \<Rightarrow> ('v, 'u) Try list \<Rightarrow> nat \<times> ('v, 'u) Try list" where
  "Filter ts flt s =
     (case flt of
        Some f \<Rightarrow> (ts, s[ts := (s ! ts)\<lparr>filters := filters (s ! ts) @ [f]\<rparr>])
      | None \<Rightarrow> (ts, s))"

text \<open>A chain of registration calls, each made on the pointer the previous one returned.\<close>

datatype ('v, 'u) registration =
    RegIndex int "('v, 'u) ErrorHandler option"
  | RegGroup "int list" "('v, 'u) ErrorHandler option"
  | RegCatch "('v, 'u) ErrorHandler option"
  | RegUnknown "('v, 'u) ErrorHandler option"
  | RegFilter "('v, 'u) ErrorFilter option"

fun register ::
  "('v, 'u) registration \<Rightarrow> nat \<Rightarrow> ('v, 'u) Try list \<Rightarrow> nat \<times> ('v, 'u) Try list" where
  "register (RegIndex index handler) ts s = try_Index ts index handler s"
| "register (RegGroup grp handler) ts s = Group ts grp handler s"
| "register (RegCatch handler) ts s = Catch ts handler s"
| "register (RegUnknown handler) ts s = Unknown ts handler s"
| "register (RegFilter flt) ts s = Filter ts flt s"

fun chain ::
  "('v, 'u) registration list \<Rightarrow> nat \<times> ('v, 'u) Try list \<Rightarrow> nat \<times> ('v, 'u) Try list" where
  "chain [] p = p"
| "chain (r # rs) p = chain rs (register r (fst p) (snd p))"

subsection \<open>Resolution\<close>

text \<open>Sequencing of calls that may panic: a panic skips what follows.\<close>

definition ret :: "'a \<Rightarrow> 'w \<Rightarrow> 'a result \<times> 'w" where
  "ret a w = (Ret a, w)"

definition seq ::
  "('w \<Rightarrow> 'a result \<times> 'w) \<Rightarrow> ('a \<Rightarrow> 'w \<Rightarrow> 'b result \<times> 'w) \<Rightarrow> 'w \<Rightarrow> 'b result \<times> 'w" where
  "seq m k w = (case m w of (Ret a, w1) \<Rightarrow> k a w1 | (Panic p, w1) \<Rightarrow> (Panic p, w1))"

text \<open>
  The filter loop of \<open>executeHandlers\<close>: \<open>Ret False\<close> is its early return (a filter
  returned false), \<open>Ret True\<close> its normal end.
\<close>

fun filtersLoop ::
  "('v, 'u) ErrorFilter list \<Rightarrow> Error \<Rightarrow> ('v, 'u) world \<Rightarrow> bool result \<times> ('v, 'u) world" where
  "filtersLoop [] err w = ret True w"
| "filtersLoop (flt # rest) err w =
     seq (flt err) (\<lambda>ok. if \<not> ok then ret False else filtersLoop rest err) w"

text \<open>The loop over the group handlers; it carries the variable \<open>handled\<close>.\<close>

fun groupLoop ::
  "('v, 'u) ErrorHandler list \<Rightarrow> Error \<Rightarrow> bool \<Rightarrow> ('v, 'u) world \<Rightarrow> bool result \<times> ('v, 'u) world" where
  "groupLoop [] err handled w = ret handled w"
| "groupLoop (handler # rest) err handled w =
     seq (handler err) (\<lambda>_. groupLoop rest err True) w"

text \<open>\<open>executeHandlers\<close> returns the pair \<open>(handled, filtered)\<close>.\<close>

definition executeHandlers ::
  "('v, 'u) Try \<Rightarrow> Error \<Rightarrow> ('v, 'u) world \<Rightarrow> (bool \<times> bool) result \<times> ('v, 'u) world" where
  "executeHandlers ts err =
     seq (filtersLoop (filters ts) err) (\<lambda>passed.
       if \<not> passed then ret (False, True)
       else
         seq (case specificHandlers ts (Index err) of
                Some handler \<Rightarrow> seq (handler err) (\<lambda>_. ret (True, True))
              | None \<Rightarrow> ret (False, False)) (\<lambda>(handled, hasSpecificHandler).
         seq (case groupHandlers ts (Index err) of
                Some handlers \<Rightarrow> groupLoop handlers err handled
              | None \<Rightarrow> ret handled) (\<lambda>handled.
         seq (case fallbackHandler ts of
                Some fb \<Rightarrow> if \<not> hasSpecificHandler then seq (fb err) (\<lambda>_. ret True) else ret handled
              | None \<Rightarrow> ret handled) (\<lambda>handled.
         seq (case globalHandler ts of
                Some g \<Rightarrow> seq (g err) (\<lambda>_. ret True)
              | None \<Rightarrow> ret handled) (\<lambda>handled.
         ret (handled, False))))))"

subsection \<open>Normalization\<close>

text \<open>What \<open>%v\<close> and \<open>%T\<close> print for a recovered value.\<close>

fun payload_v :: "payload \<Rightarrow> string" where
  "payload_v PassVal = ''{}''"
| "payload_v (ErrorVal e) = Error_string e"
| "payload_v (OtherVal r) = fmt_v r"

fun payload_T :: "payload \<Rightarrow> string" where
  "payload_T PassVal = ''throw.Pass''"
| "payload_T (ErrorVal e) = ''throw.Error''"
| "payload_T (OtherVal r) = fmt_T r"

definition normalizeError ::
  "(nat \<Rightarrow> string) \<Rightarrow> payload \<Rightarrow> ('v, 'u) world \<Rightarrow> Error \<times> ('v, 'u) world" where
  "normalizeError rt recoverObj w =
     (case recoverObj of
        ErrorVal e \<Rightarrow> (e, w)
      | _ \<Rightarrow>
          (let stack = GetPanicStack rt;
               (a, h1) = makeMap (heap w)
           in (\<lparr>Index = FallbackErrorIndex,
                Message = ''unexpected panic: '' @ payload_v recoverObj @ '' (type: '' @
                          payload_T recoverObj @ '')'',
                Stack = stack,
                Context = Some a\<rparr>,
               w\<lparr>heap := h1\<rparr>)))"

subsection \<open>Execution\<close>

text \<open>
  A deferred function runs when \<open>Finally\<close> exits. It is given the panic in flight
  (\<open>None\<close> when there is none) and leaves the panic in flight after it: \<open>recover\<close> stops
  the panic, a panic of its own replaces it.
\<close>

type_synonym ('v, 'u) deferred =
  "payload option \<Rightarrow> ('v, 'u) world \<Rightarrow> payload option \<times> ('v, 'u) world"

text \<open>The first \<open>defer\<close> of \<open>Finally\<close>: it never calls \<open>recover\<close>.\<close>

definition deferFinally :: "('v, 'u) Func option \<Rightarrow> ('v, 'u) deferred" where
  "deferFinally finally panicking w =
     (case finally of
        None \<Rightarrow> (panicking, w)
      | Some f \<Rightarrow>
          (case f w of
             (Ret _, w1) \<Rightarrow> (panicking, w1)
           | (Panic q, w1) \<Rightarrow> (Some q, w1)))"

text \<open>The second \<open>defer\<close> of \<open>Finally\<close>: recover, then dispatch, then re-panic.\<close>

definition deferRecover :: "('v, 'u) Try \<Rightarrow> (nat \<Rightarrow> string) \<Rightarrow> ('v, 'u) deferred" where
  "deferRecover ts rt panicking w =
     (case panicking of
        None \<Rightarrow> (None, w)
      | Some recoverObj \<Rightarrow>
          (case recoverObj of
             PassVal \<Rightarrow> (None, w)
           | _ \<Rightarrow>
               (let (err, w1) = normalizeError rt recoverObj w
                in case executeHandlers ts err w1 of
                     (Panic q, w2) \<Rightarrow> (Some q, w2)
                   | (Ret (handled, filtered), w2) \<Rightarrow>
                       if \<not> handled \<and> \<not> filtered then (Some (ErrorVal err), w2)
                       else (None, w2))))"

text \<open>The deferred functions run last in, first out; the list is the stack, top first.\<close>

fun runDeferred ::
  "('v, 'u) deferred list \<Rightarrow> payload option \<Rightarrow> ('v, 'u) world \<Rightarrow>
   payload option \<times> ('v, 'u) world" where
  "runDeferred [] panicking w = (panicking, w)"
| "runDeferred (d # ds) panicking w =
     (case d panicking w of (panicking1, w1) \<Rightarrow> runDeferred ds panicking1 w1)"

text \<open>Calling a nil function value is a run-time panic of Go.\<close>

definition nilDereference :: raw where
  "nilDereference =
     Raw ''runtime error: invalid memory address or nil pointer dereference''
         ''runtime.errorString''"

definition callFunc :: "('v, 'u) Func option \<Rightarrow> ('v, 'u) Func" where
  "callFunc fn w = (case fn of Some f \<Rightarrow> f w | None \<Rightarrow> (Panic (OtherVal nilDereference), w))"

definition Finally ::
  "('v, 'u) Try \<Rightarrow> ('v, 'u) Func option \<Rightarrow> (nat \<Rightarrow> string) \<Rightarrow> ('v, 'u) Func" where
  "Finally ts finally rt w =
     (let deferStack = [deferFinally finally];
          deferStack = deferRecover ts rt # deferStack;
          (r, w1) = callFunc (tryFunc ts) w;
          panicking = (case r of Ret _ \<Rightarrow> None | Panic p \<Rightarrow> Some p);
          (panicking2, w2) = runDeferred deferStack panicking w1
      in (case panicking2 of None \<Rightarrow> Ret () | Some p \<Rightarrow> Panic p, w2))"

definition Do :: "('v, 'u) Try \<Rightarrow> (nat \<Rightarrow> string) \<Rightarrow> ('v, 'u) Func" where
  "Do ts rt w = Finally ts None rt w"

section \<open>Notions used to state the properties\<close>

text \<open>
  Calling a list of handlers one after the other on the same error; a panic of one of them
  ends the sequence.
\<close>

fun invokeAll :: "('v, 'u) ErrorHandler list \<Rightarrow> Error \<Rightarrow> ('v, 'u) Func" where
  "invokeAll [] e w = (Ret (), w)"
| "invokeAll (h # hs) e w =
     (case h e w of (Ret _, w1) \<Rightarrow> invokeAll hs e w1 | (Panic p, w1) \<Rightarrow> (Panic p, w1))"

text \<open>
  The order of resolution as the specification words it: the specific handler of the
  error's code if there is one, then the group handlers of that code in their order, then
  the fallback handler if there is one and there was no specific handler, then the global
  handler if there is one.
\<close>

definition resolutionOrder :: "('v, 'u) Try \<Rightarrow> Error \<Rightarrow> ('v, 'u) ErrorHandler list" where
  "resolutionOrder ts e =
     (case specificHandlers ts (Index e) of Some h \<Rightarrow> [h] | None \<Rightarrow> []) @
     (case groupHandlers ts (Index e) of Some hs \<Rightarrow> hs | None \<Rightarrow> []) @
     (case fallbackHandler ts of
        Some fb \<Rightarrow> (case specificHandlers ts (Index e) of None \<Rightarrow> [fb] | Some _ \<Rightarrow> [])
      | None \<Rightarrow> []) @
     (case globalHandler ts of Some g \<Rightarrow> [g] | None \<Rightarrow> [])"

text \<open>
  What \<open>executeHandlers\<close> answers once the handlers have been called: \<open>handled\<close> and
  \<open>filtered = false\<close> when they all returned, the panic of the one that panicked
  otherwise.
\<close>

definition afterHandlers ::
  "bool \<Rightarrow> unit result \<times> 'w \<Rightarrow> (bool \<times> bool) result \<times> 'w" where
  "afterHandlers handled x =
     (case x of (Ret _, w) \<Rightarrow> (Ret (handled, False), w) | (Panic p, w) \<Rightarrow> (Panic p, w))"

text \<open>
  An outcome followed by one call of the finalizer, if there is one: the outcome stands
  unless the finalizer itself panics.
\<close>

definition thenFinalizer ::
  "('v, 'u) Func option \<Rightarrow> unit result \<times> ('v, 'u) world \<Rightarrow> unit result \<times> ('v, 'u) world" where
  "thenFinalizer finally x =
     (case finally of
        None \<Rightarrow> x
      | Some f \<Rightarrow>
          (case f (snd x) of
             (Ret _, w1) \<Rightarrow> (fst x, w1)
           | (Panic q, w1) \<Rightarrow> (Panic q, w1)))"

text \<open>
  Nested engines: the protected block of each engine of the list is the execution call of
  the next one, and the last one protects \<open>block\<close>. The head of the list is the outermost.
\<close>

fun nested ::
  "(('v, 'u) Try \<times> ('v, 'u) Func option \<times> (nat \<Rightarrow> string)) list \<Rightarrow>
   ('v, 'u) Func option \<Rightarrow> ('v, 'u) Func option" where
  "nested [] block = block"
| "nested ((ts, finally, rt) # inner) block =
     Some (Finally (ts\<lparr>tryFunc := nested inner block\<rparr>) finally rt)"

text \<open>No handler is registered under one of the two reserved codes.\<close>

definition reservedFree :: "('v, 'u) Try \<Rightarrow> bool" where
  "reservedFree ts =
     (specificHandlers ts 0 = None \<and> specificHandlers ts FallbackErrorIndex = None \<and>
      groupHandlers ts 0 = None \<and> groupHandlers ts FallbackErrorIndex = None)"

text \<open>The engine that \<open>Run(block)\<close> followed by a chain of registrations leaves.\<close>

definition engineOf ::
  "('v, 'u) Func option \<Rightarrow> ('v, 'u) registration list \<Rightarrow> ('v, 'u) Try" where
  "engineOf block regs = (case chain regs (Run block []) of (ts, s) \<Rightarrow> s ! ts)"

section \<open>Example closures and engines\<close>

text \<open>
  The closures of the examples record their call in the captured variable, a list of
  names, the way the closures of the repository's tests set a flag. Context values are
  numbers.
\<close>

definition logH :: "string \<Rightarrow> (nat, string list) ErrorHandler" where
  "logH name e w = (Ret (), w\<lparr>vars := vars w @ [name]\<rparr>)"

definition logFilter :: "string \<Rightarrow> bool \<Rightarrow> (nat, string list) ErrorFilter" where
  "logFilter name verdict e w = (Ret verdict, w\<lparr>vars := vars w @ [name]\<rparr>)"

definition logFunc :: "string \<Rightarrow> (nat, string list) Func" where
  "logFunc name w = (Ret (), w\<lparr>vars := vars w @ [name]\<rparr>)"

definition raising :: "payload \<Rightarrow> (nat, string list) Func" where
  "raising p w = (Panic p, w\<lparr>vars := vars w @ [''block'']\<rparr>)"

definition rt0 :: "nat \<Rightarrow> string" where
  "rt0 n = ''goroutine 1 [running]''"

definition errorOf :: "int \<Rightarrow> string \<Rightarrow> Error" where
  "errorOf index message =
     \<lparr>Index = index, Message = message, Stack = GetPanicStack rt0, Context = None\<rparr>"

definition w0 :: "(nat, string list) world" where
  "w0 = \<lparr>heap = [], vars = []\<rparr>"

definition boom :: raw where
  "boom = Raw ''boom'' ''string''"

definition ctxError :: Error where
  "ctxError = \<lparr>Index = 500, Message = ''server error'', Stack = ''stack trace'', Context = None\<rparr>"

definition engineA :: "(nat, string list) Try" where
  "engineA =
     engineOf (Some (raising (ErrorVal (errorOf 404 ''not found''))))
       [RegIndex 404 (Some (logH ''index'')),
        RegGroup [400, 404] (Some (logH ''group1'')),
        RegGroup [404, 0] (Some (logH ''group2'')),
        RegUnknown (Some (logH ''unknown'')),
        RegCatch (Some (logH ''catch''))]"

definition engineB :: "(nat, string list) Try" where
  "engineB =
     engineOf (Some (raising (ErrorVal (errorOf 500 ''server error''))))
       [RegFilter (Some (logFilter ''filter1'' True)),
        RegFilter (Some (logFilter ''filter2'' False)),
        RegFilter (Some (logFilter ''filter3'' True)),
        RegIndex 500 (Some (logH ''index'')),
        RegUnknown (Some (logH ''unknown'')),
        RegCatch (Some (logH ''catch''))]"

definition engineC :: "(nat, string list) Try" where
  "engineC =
     engineOf (Some (raising (ErrorVal (errorOf 500 ''server error''))))
       [RegIndex 404 (Some (logH ''index'')),
        RegGroup [400, 404] (Some (logH ''group'')),
        RegFilter (Some (logFilter ''filter'' True))]"

definition engineP :: "(nat, string list) Try" where
  "engineP =
     engineOf (Some (raising PassVal))
       [RegUnknown (Some (logH ''unknown'')), RegCatch (Some (logH ''catch''))]"

definition engineN :: "(nat, string list) Try" where
  "engineN =
     engineOf (Some (logFunc ''block''))
       [RegUnknown (Some (logH ''unknown'')), RegCatch (Some (logH ''catch''))]"

definition engineF :: "(nat, string list) Try" where
  "engineF =
     engineOf (Some (raising (OtherVal boom)))
       [RegFilter (Some (logFilter ''filter'' False)),
        RegUnknown (Some (logH ''unknown'')),
        RegCatch (Some (logH ''catch''))]"

definition regsU :: "(nat, string list) registration list" where
  "regsU = [RegFilter (Some (logFilter ''filter'' True)),
            RegIndex FallbackErrorIndex (Some (logH ''index'')),
            RegUnknown (Some (logH ''unknown'')),
            RegCatch (Some (logH ''catch''))]"

definition regsR :: "(nat, string list) registration list" where
  "regsR = [RegIndex 0 (Some (logH ''zero'')),
            RegIndex FallbackErrorIndex (Some (logH ''fallback code'')),
            RegIndex 404 None,
            RegGroup [0, 404, FallbackErrorIndex, 404] (Some (logH ''group'')),
            RegGroup [] (Some (logH ''empty group'')),
            RegGroup [0, 500] None]"

text \<open>The closures of \<open>TestTryMultipleFilters\<close>.\<close>

definition raiseForbidden :: "(nat, string list) Func" where
  "raiseForbidden w =
     (case throw_IndexWithContext rt0 403 ''forbidden'' ''userID'' 123 (heap w) of
        (r, h1) \<Rightarrow> (r, w\<lparr>heap := h1\<rparr>))"

definition atLeast400 :: "(nat, string list) ErrorFilter" where
  "atLeast400 e w = (Ret (Index e \<ge> 400), w\<lparr>vars := vars w @ [''filter1'']\<rparr>)"

definition hasUserID :: "(nat, string list) ErrorFilter" where
  "hasUserID e w =
     (Ret (GetContext e ''userID'' (heap w) \<noteq> None), w\<lparr>vars := vars w @ [''filter2'']\<rparr>)"

definition engineT :: "(nat, string list) Try" where
  "engineT =
     engineOf (Some raiseForbidden)
       [RegFilter (Some atLeast400),
        RegFilter (Some hasUserID),
        RegIndex 403 (Some (logH ''handler''))]"

text \<open>The engines of three scenarios of the specification and of \<open>TestTryUnknown\<close>.\<close>

definition engineK :: "(nat, string list) Try" where
  "engineK =
     engineOf (Some (\<lambda>w. (throw_Index rt0 404 ''not found'', w)))
       [RegIndex 404 (Some (logH ''h1'')), RegCatch (Some (logH ''h2''))]"

definition engineG :: "(nat, string list) Try" where
  "engineG =
     engineOf (Some (\<lambda>w. (throw_Index rt0 403 ''forbidden'', w)))
       [RegGroup [400, 401, 403, 404] (Some (logH ''hg'')), RegCatch (Some (logH ''ha''))]"

definition engineU :: "(nat, string list) Try" where
  "engineU =
     engineOf (Some (\<lambda>w. (throw_Index rt0 999 ''unknown error'', w)))
       [RegIndex 404 (Some (logH ''index'')),
        RegUnknown (Some (logH ''unknown'')),
        RegCatch (Some (logH ''catch''))]"

section \<open>Properties of package throw\<close>

text \<open>
  C10. \<open>ValueErr val err\<close> panics exactly when \<open>err\<close> is not nil, and returns \<open>val\<close> itself
  when it is nil; \<open>Err err\<close> panics exactly when \<open>err\<close> is not nil; the payload of either
  panic is an \<open>Error\<close> with code \<open>FallbackErrorIndex\<close> and message \<open>err.Error()\<close>.
\<close>

theorem ValueErr_Err_raise_iff:
  "((\<exists>p. ValueErr rt val err = Panic p) \<longleftrightarrow> err \<noteq> None) \<and>
   (ValueErr rt val None = Ret val) \<and>
   ((\<exists>p. throw_Err rt err = Panic p) \<longleftrightarrow> err \<noteq> None) \<and>
   (throw_Err rt None = Ret ()) \<and>
   (\<exists>e. ValueErr rt val (Some m) = Panic (ErrorVal e) \<and>
        Index e = FallbackErrorIndex \<and> Message e = m) \<and>
   (\<exists>e. throw_Err rt (Some m) = Panic (ErrorVal e) \<and>
        Index e = FallbackErrorIndex \<and> Message e = m)"
  by (cases err) (simp_all add: ValueErr_def throw_Err_def throw_Index_def)

theorem ValueErr_Err_raise_iff_witness:
  "ValueErr (\<lambda>n. ''main.go:7'') (5::nat) None = Ret 5 \<and>
   throw_Err (\<lambda>n. ''main.go:7'') None = Ret () \<and>
   ValueErr (\<lambda>n. ''main.go:7'') (5::nat) (Some ''EOF'') =
     Panic (ErrorVal \<lparr>Index = - 9223372036854775808, Message = ''EOF'',
                      Stack = ''main.go:7'', Context = None\<rparr>) \<and>
   throw_Err (\<lambda>n. ''main.go:7'') (Some ''EOF'') =
     Panic (ErrorVal \<lparr>Index = - 9223372036854775808, Message = ''EOF'',
                      Stack = ''main.go:7'', Context = None\<rparr>)"
  using ValueErr_Err_raise_iff [of "\<lambda>n. ''main.go:7''" "5::nat" "Some ''EOF''" "''EOF''"]
  by (simp add: ValueErr_def throw_Err_def throw_Index_def GetPanicStack_def
      FallbackErrorIndex_def)

text \<open>
  C4, as the code has it. \<open>WithContext\<close> returns an error whose context maps the key to
  the value and keeps every other entry, with code, message and stack unchanged. When the
  context of the receiver is nil, a map is allocated for the returned value and no error
  value that existed before changes, the receiver included. When it is not nil, the entry
  is written into the map the receiver points to: the returned value is the receiver
  itself, and the receiver and every copy of it (every error holding the same map) now
  read the new entry, while the errors holding another map are unchanged.
\<close>

theorem WithContext_effect:
  assumes "wellFormed e h" and "WithContext e key val h = (e', h')"
  shows "GetContext e' key h' = Some val \<and>
         (\<forall>k. k \<noteq> key \<longrightarrow> GetContext e' k h' = GetContext e k h) \<and>
         Index e' = Index e \<and> Message e' = Message e \<and> Stack e' = Stack e \<and>
         (Context e = None \<longrightarrow>
            Context e' = Some (length h) \<and>
            (\<forall>d k. wellFormed d h \<longrightarrow> GetContext d k h' = GetContext d k h)) \<and>
         (Context e \<noteq> None \<longrightarrow>
            e' = e \<and>
            (\<forall>d. Context d = Context e \<longrightarrow> GetContext d key h' = Some val) \<and>
            (\<forall>d k. wellFormed d h \<and> Context d \<noteq> Context e \<longrightarrow>
                   GetContext d k h' = GetContext d k h))"
proof (cases "Context e")
  case None
  with assms(2) have e': "e' = e\<lparr>Context := Some (length h)\<rparr>"
    and h': "h' = h @ [[key \<mapsto> val]]"
    by (auto simp: WithContext_def makeMap_def mapAssign_def)
  have "\<forall>d k. wellFormed d h \<longrightarrow> GetContext d k h' = GetContext d k h"
    by (auto simp: wellFormed_def GetContext_def h' nth_append split: option.splits)
  with None e' h' show ?thesis by (simp add: GetContext_def)
next
  case (Some a)
  with assms have a: "a < length h" and e': "e' = e" and h': "h' = h[a := (h ! a)(key \<mapsto> val)]"
    by (auto simp: WithContext_def wellFormed_def mapAssign_def)
  have "\<forall>d k. wellFormed d h \<and> Context d \<noteq> Context e \<longrightarrow> GetContext d k h' = GetContext d k h"
    using Some by (auto simp: wellFormed_def GetContext_def h' split: option.splits)
  with Some a e' h' show ?thesis by (simp add: GetContext_def)
qed

text \<open>
  C4 as the specification states it fails. Starting from an error without context,
  \<open>e1 := e.WithContext("key1", 1)\<close> gives an error that has no \<open>key2\<close>; after
  \<open>e1.WithContext("key2", 2)\<close> the same value \<open>e1\<close> reads \<open>key2 = 2\<close>.
\<close>

theorem WithContext_shared_counterexample:
  "WithContext ctxError ''key1'' (1::nat) [] = (ctxError\<lparr>Context := Some 0\<rparr>, [[''key1'' \<mapsto> 1]]) \<and>
   GetContext (ctxError\<lparr>Context := Some 0\<rparr>) ''key2'' [[''key1'' \<mapsto> (1::nat)]] = None \<and>
   GetContext (ctxError\<lparr>Context := Some 0\<rparr>) ''key2''
     (snd (WithContext (ctxError\<lparr>Context := Some 0\<rparr>) ''key2'' 2 [[''key1'' \<mapsto> 1]])) = Some 2"
  by (simp add: WithContext_def makeMap_def mapAssign_def GetContext_def ctxError_def)

text \<open>C4, the amended statement at the second call of the example above.\<close>

theorem WithContext_effect_witness:
  "wellFormed (ctxError\<lparr>Context := Some 0\<rparr>) [[''key1'' \<mapsto> (1::nat)]] \<and>
   WithContext (ctxError\<lparr>Context := Some 0\<rparr>) ''key2'' 2 [[''key1'' \<mapsto> 1]] =
     (ctxError\<lparr>Context := Some 0\<rparr>, [[''key1'' \<mapsto> 1, ''key2'' \<mapsto> 2]]) \<and>
   GetContext (ctxError\<lparr>Context := Some 0\<rparr>) ''key2'' [[''key1'' \<mapsto> 1, ''key2'' \<mapsto> (2::nat)]] = Some 2 \<and>
   GetContext (ctxError\<lparr>Context := Some 0\<rparr>) ''key1'' [[''key1'' \<mapsto> 1, ''key2'' \<mapsto> (2::nat)]] = Some 1"
  using WithContext_effect [of "ctxError\<lparr>Context := Some 0\<rparr>" "[[''key1'' \<mapsto> (1::nat)]]"
      "''key2''" 2 "ctxError\<lparr>Context := Some 0\<rparr>" "[[''key1'' \<mapsto> 1, ''key2'' \<mapsto> 2]]"]
  by (simp add: wellFormed_def WithContext_def mapAssign_def GetContext_def ctxError_def)

section \<open>Properties of registration\<close>

lemma Group_loop_apply:
  "Group_loop grp h gh c =
     (if c \<in> set grp \<and> c \<noteq> 0 \<and> c \<noteq> FallbackErrorIndex
      then Some ((case gh c of None \<Rightarrow> [] | Some hs \<Rightarrow> hs) @ replicate (count_list grp c) h)
      else gh c)"
proof (induction grp arbitrary: gh)
  case Nil
  show ?case by simp
next
  case (Cons i grp)
  show ?case
    by (simp add: Cons.IH replicate_app_Cons_same split: option.splits)
qed

lemma register_same: "fst (register r ts s) = ts"
  by (cases r)
     (simp_all add: try_Index_def Group_def Catch_def Unknown_def Filter_def split: option.splits)

lemma register_length: "length (snd (register r ts s)) = length s"
  by (cases r)
     (simp_all add: try_Index_def Group_def Catch_def Unknown_def Filter_def split: option.splits)

lemma register_reservedFree:
  assumes "ts < length s" and "reservedFree (s ! ts)"
  shows "reservedFree (snd (register r ts s) ! ts)"
  using assms
  by (cases r)
     (auto simp: try_Index_def Group_def Catch_def Unknown_def Filter_def reservedFree_def
        Group_loop_apply split: option.splits)

lemma chain_invariant:
  assumes "ts < length s" and "reservedFree (s ! ts)"
  shows "fst (chain regs (ts, s)) = ts \<and> length (snd (chain regs (ts, s))) = length s \<and>
         reservedFree (snd (chain regs (ts, s)) ! ts)"
  using assms
proof (induction regs arbitrary: s)
  case Nil
  then show ?case by simp
next
  case (Cons r regs)
  obtain s1 where r: "register r ts s = (ts, s1)"
    using register_same [of r ts s] by (cases "register r ts s") simp
  have "length s1 = length s" using register_length [of r ts s] r by simp
  moreover have "reservedFree (s1 ! ts)"
    using register_reservedFree [OF Cons.prems, of r] r by simp
  ultimately show ?case using Cons.IH [of s1] Cons.prems(1) r by simp
qed

lemma Run_chain_invariant:
  "fst (chain regs (Run tryHandler s)) = length s \<and>
   length (snd (chain regs (Run tryHandler s))) = Suc (length s) \<and>
   reservedFree (snd (chain regs (Run tryHandler s)) ! length s)"
proof -
  let ?s0 = "snd (Run tryHandler s)"
  have run: "Run tryHandler s = (length s, ?s0)" by (simp add: Run_def)
  have "length s < length ?s0" by (simp add: Run_def)
  moreover have "reservedFree (?s0 ! length s)" by (simp add: Run_def reservedFree_def)
  ultimately show ?thesis
    using chain_invariant [of "length s" ?s0 regs] run by (simp add: Run_def)
qed

lemma Group_registers:
  assumes "ts < length s"
  shows "Group ts grp (Some h) s =
        (ts, s[ts := (s ! ts)\<lparr>groupHandlers :=
                 (\<lambda>c. if c \<in> set grp \<and> c \<noteq> 0 \<and> c \<noteq> FallbackErrorIndex
                      then Some ((case groupHandlers (s ! ts) c of None \<Rightarrow> [] | Some hs \<Rightarrow> hs) @
                                 replicate (count_list grp c) h)
                      else groupHandlers (s ! ts) c)\<rparr>])"
proof -
  have eq: "Group_loop grp h (groupHandlers (s ! ts)) =
         (\<lambda>c. if c \<in> set grp \<and> c \<noteq> 0 \<and> c \<noteq> FallbackErrorIndex
              then Some ((case groupHandlers (s ! ts) c of None \<Rightarrow> [] | Some hs \<Rightarrow> hs) @
                         replicate (count_list grp c) h)
              else groupHandlers (s ! ts) c)"
    by (rule ext) (rule Group_loop_apply)
  show ?thesis
  proof (cases grp)
    case Nil
    then show ?thesis by (simp add: Group_def)
  next
    case (Cons i rest)
    then have "length grp > 0" by simp
    then show ?thesis by (simp only: Group_def eq option.case if_True)
  qed
qed

text \<open>
  C8. After \<open>Run\<close> and any chain of registration calls, the pointer in hand is the one
  \<open>Run\<close> returned, and neither the specific-handler map nor the group-handler map of the
  engine has an entry for code 0 or for \<open>FallbackErrorIndex\<close>. \<open>Index\<close> with code 0,
  with \<open>FallbackErrorIndex\<close> or with a nil handler leaves the store of engines as it
  was. \<open>Group\<close> with a nil handler or an empty list leaves it as it was; otherwise it
  appends the handler to the sequence of each code of the list other than 0 and
  \<open>FallbackErrorIndex\<close>, once for each occurrence, and touches no other code. Every
  registration method returns its receiver.
\<close>

theorem reserved_codes_never_registered:
  "(chain regs (Run tryHandler s0) = (ts', s') \<longrightarrow>
      ts' = fst (Run tryHandler s0) \<and> ts' < length s' \<and>
      specificHandlers (s' ! ts') 0 = None \<and>
      specificHandlers (s' ! ts') FallbackErrorIndex = None \<and>
      groupHandlers (s' ! ts') 0 = None \<and>
      groupHandlers (s' ! ts') FallbackErrorIndex = None) \<and>
   try_Index ts 0 handler s = (ts, s) \<and>
   try_Index ts FallbackErrorIndex handler s = (ts, s) \<and>
   try_Index ts index None s = (ts, s) \<and>
   Group ts grp None s = (ts, s) \<and>
   Group ts [] handler s = (ts, s) \<and>
   (ts < length s \<longrightarrow>
      Group ts grp (Some h) s =
        (ts, s[ts := (s ! ts)\<lparr>groupHandlers :=
                 (\<lambda>c. if c \<in> set grp \<and> c \<noteq> 0 \<and> c \<noteq> FallbackErrorIndex
                      then Some ((case groupHandlers (s ! ts) c of None \<Rightarrow> [] | Some hs \<Rightarrow> hs) @
                                 replicate (count_list grp c) h)
                      else groupHandlers (s ! ts) c)\<rparr>])) \<and>
   fst (register r ts s) = ts"
proof (intro conjI impI)
  assume c: "chain regs (Run tryHandler s0) = (ts', s')"
  from Run_chain_invariant [of regs tryHandler s0] c
  have "ts' = length s0" "length s' = Suc (length s0)" "reservedFree (s' ! length s0)"
    by simp_all
  then show "ts' = fst (Run tryHandler s0)" "ts' < length s'"
    "specificHandlers (s' ! ts') 0 = None"
    "specificHandlers (s' ! ts') FallbackErrorIndex = None"
    "groupHandlers (s' ! ts') 0 = None"
    "groupHandlers (s' ! ts') FallbackErrorIndex = None"
    by (simp_all add: Run_def reservedFree_def)
next
  show "try_Index ts 0 handler s = (ts, s)"
    "try_Index ts FallbackErrorIndex handler s = (ts, s)"
    "try_Index ts index None s = (ts, s)"
    by (simp_all add: try_Index_def split: option.splits)
  show "Group ts grp None s = (ts, s)" "Group ts [] handler s = (ts, s)"
    by (simp_all add: Group_def split: option.splits)
  show "fst (register r ts s) = ts" by (rule register_same)
next
  assume "ts < length s"
  then show "Group ts grp (Some h) s =
        (ts, s[ts := (s ! ts)\<lparr>groupHandlers :=
                 (\<lambda>c. if c \<in> set grp \<and> c \<noteq> 0 \<and> c \<noteq> FallbackErrorIndex
                      then Some ((case groupHandlers (s ! ts) c of None \<Rightarrow> [] | Some hs \<Rightarrow> hs) @
                                 replicate (count_list grp c) h)
                      else groupHandlers (s ! ts) c)\<rparr>])"
    by (rule Group_registers)
qed

lemma chain_regsR:
  "chain regsR (Run None []) =
     (0, [\<lparr>specificHandlers = Map.empty,
           groupHandlers = [404 \<mapsto> [logH ''group'', logH ''group'']],
           globalHandler = None, fallbackHandler = None,
           tryFunc = None, filters = []\<rparr>])"
  by (simp add: regsR_def Run_def try_Index_def Group_def FallbackErrorIndex_def)

text \<open>
  C8 on a chain that tries both reserved codes, a nil handler, an empty group, and a group
  that lists 404 twice between the reserved codes: only the two entries for 404 are there.
\<close>

theorem reserved_codes_never_registered_witness:
  "chain regsR (Run None []) =
     (0, [\<lparr>specificHandlers = Map.empty,
           groupHandlers = [404 \<mapsto> [logH ''group'', logH ''group'']],
           globalHandler = None, fallbackHandler = None,
           tryFunc = None, filters = []\<rparr>]) \<and>
   fst (Run None ([] :: (nat, string list) Try list)) = 0 \<and>
   try_Index 0 0 (Some (logH ''zero'')) (snd (Run None [])) = (0, snd (Run None [])) \<and>
   Group 0 [0, 404, FallbackErrorIndex, 404] (Some (logH ''group'')) (snd (Run None [])) =
     (0, [\<lparr>specificHandlers = Map.empty,
           groupHandlers = [404 \<mapsto> [logH ''group'', logH ''group'']],
           globalHandler = None, fallbackHandler = None,
           tryFunc = None, filters = []\<rparr>])"
  using reserved_codes_never_registered [of regsR None "[]" 0
      "[\<lparr>specificHandlers = Map.empty,
           groupHandlers = [404 \<mapsto> [logH ''group'', logH ''group'']],
           globalHandler = None, fallbackHandler = None,
           tryFunc = None, filters = []\<rparr>]" 0 "Some (logH ''zero'')" "snd (Run None [])" 404
      "[0, 404, FallbackErrorIndex, 404]" "logH ''group''"
      "RegCatch (Some (logH ''catch''))"]
  by (simp add: chain_regsR) (simp add: Run_def try_Index_def Group_def FallbackErrorIndex_def)

section \<open>Properties of resolution\<close>

lemma seq_ret [simp]: "seq (ret a) k w = k a w"
  by (simp add: seq_def ret_def)

lemma seq_Ret: "m w = (Ret a, w1) \<Longrightarrow> seq m k w = k a w1"
  by (simp add: seq_def)

lemma groupLoop_invokeAll:
  "groupLoop hs e handled w =
     (case invokeAll hs e w of
        (Ret _, w1) \<Rightarrow> (Ret (handled \<or> hs \<noteq> []), w1)
      | (Panic p, w1) \<Rightarrow> (Panic p, w1))"
proof (induction hs arbitrary: handled w)
  case Nil
  show ?case by (simp add: ret_def)
next
  case (Cons h hs)
  show ?case
  proof (cases "h e w")
    case (Pair r w1)
    then show ?thesis
      by (cases r) (simp_all add: seq_def Cons.IH split: prod.splits result.splits)
  qed
qed

lemma invokeAll_append:
  "invokeAll (xs @ ys) e w =
     (case invokeAll xs e w of (Ret _, w1) \<Rightarrow> invokeAll ys e w1 | (Panic p, w1) \<Rightarrow> (Panic p, w1))"
  by (induction xs arbitrary: w) (auto split: prod.splits result.splits)

lemma executeHandlers_passed:
  assumes "filtersLoop (filters ts) e w = (Ret True, w1)"
  shows "executeHandlers ts e w =
           afterHandlers (resolutionOrder ts e \<noteq> []) (invokeAll (resolutionOrder ts e) e w1)"
  using assms
  apply (simp add: executeHandlers_def seq_Ret resolutionOrder_def afterHandlers_def)
  apply (auto simp add: seq_def ret_def groupLoop_invokeAll invokeAll_append
      split: option.splits prod.splits result.splits)
  done

lemma engineA_fields:
  "specificHandlers engineA 404 = Some (logH ''index'')"
  "groupHandlers engineA 404 = Some [logH ''group1'', logH ''group2'']"
  "fallbackHandler engineA = Some (logH ''unknown'')"
  "globalHandler engineA = Some (logH ''catch'')"
  "filters engineA = []"
  "tryFunc engineA = Some (raising (ErrorVal (errorOf 404 ''not found'')))"
  "specificHandlers engineA 999 = None"
  "groupHandlers engineA 999 = None"
  by (simp_all add: engineA_def engineOf_def Run_def try_Index_def Group_def Catch_def Unknown_def
      FallbackErrorIndex_def)

text \<open>
  C1. When no filter rejects the error (the filter loop ends normally, leaving the world
  \<open>w1\<close>), \<open>executeHandlers\<close> does exactly this: it calls the handlers of
  \<open>resolutionOrder\<close> one after the other in that order (specific, then the group handlers
  in their order, then the fallback if there was no specific handler, then the global
  handler) and answers \<open>handled\<close> = some handler was called, \<open>filtered = false\<close>; a
  handler that panics ends the sequence with its panic. The order of the group handlers of
  a code is the order of registration: \<open>Group\<close> puts the handler behind those the code
  already has.
\<close>

theorem resolution_order:
  "(filtersLoop (filters ts) e w = (Ret True, w1) \<longrightarrow>
      executeHandlers ts e w =
        afterHandlers (resolutionOrder ts e \<noteq> []) (invokeAll (resolutionOrder ts e) e w1)) \<and>
   (r < length s \<and> c \<in> set grp \<and> c \<noteq> 0 \<and> c \<noteq> FallbackErrorIndex \<longrightarrow>
      groupHandlers (snd (Group r grp (Some h) s) ! r) c =
        Some ((case groupHandlers (s ! r) c of None \<Rightarrow> [] | Some hs \<Rightarrow> hs) @
              replicate (count_list grp c) h))"
  by (simp add: executeHandlers_passed Group_registers)

text \<open>
  C1 on an engine with a specific handler, two group handlers, a fallback and a global
  handler for code 404. For an error of code 404 the specific handler, the two group
  handlers in the order of their registration and the global handler run, the fallback
  does not; for an error of code 999 the fallback and then the global handler run.
\<close>

theorem resolution_order_witness:
  "filtersLoop (filters engineA) (errorOf 404 ''not found'') w0 = (Ret True, w0) \<and>
   executeHandlers engineA (errorOf 404 ''not found'') w0 =
     (Ret (True, False), \<lparr>heap = [], vars = [''index'', ''group1'', ''group2'', ''catch'']\<rparr>) \<and>
   executeHandlers engineA (errorOf 999 ''unknown error'') w0 =
     (Ret (True, False), \<lparr>heap = [], vars = [''unknown'', ''catch'']\<rparr>) \<and>
   groupHandlers
     (snd (Group 0 [404] (Some (logH ''group2''))
            (snd (Group 0 [404] (Some (logH ''group1'')) (snd (Run None []))))) ! 0) 404 =
     Some [logH ''group1'', logH ''group2'']"
  using resolution_order [of engineA "errorOf 404 ''not found''" w0 w0 0
      "snd (Group 0 [404] (Some (logH ''group1'')) (snd (Run None [])))" 404 "[404]"
      "logH ''group2''"]
    resolution_order [of engineA "errorOf 999 ''unknown error''" w0 w0 0
      "snd (Group 0 [404] (Some (logH ''group1'')) (snd (Run None [])))" 404 "[404]"
      "logH ''group2''"]
  by (simp add: engineA_fields resolutionOrder_def afterHandlers_def errorOf_def ret_def
      logH_def w0_def Group_def Run_def FallbackErrorIndex_def)

lemma filtersLoop_append:
  "filtersLoop (xs @ ys) e w =
     (case filtersLoop xs e w of
        (Ret True, w1) \<Rightarrow> filtersLoop ys e w1
      | (Ret False, w1) \<Rightarrow> (Ret False, w1)
      | (Panic p, w1) \<Rightarrow> (Panic p, w1))"
  by (induction xs arbitrary: w)
     (auto simp: seq_def ret_def split: prod.splits result.splits bool.splits)

lemma filtersLoop_chain:
  assumes "length ws = Suc (length fs)"
    and "\<forall>i<length fs. (fs ! i) e (ws ! i) = (Ret True, ws ! Suc i)"
  shows "filtersLoop fs e (ws ! 0) = (Ret True, ws ! length fs)"
  using assms
proof (induction fs arbitrary: ws)
  case Nil
  then show ?case by (simp add: ret_def)
next
  case (Cons f fs)
  from Cons.prems(1) obtain w0 ws' where ws: "ws = w0 # ws'" and len: "length ws' = Suc (length fs)"
    by (cases ws) auto
  have step: "f e w0 = (Ret True, ws' ! 0)"
    using Cons.prems(2) ws by fastforce
  have rest: "\<forall>i<length fs. (fs ! i) e (ws' ! i) = (Ret True, ws' ! Suc i)"
  proof (intro allI impI)
    fix i assume "i < length fs"
    then have "Suc i < length (f # fs)" by simp
    with Cons.prems(2) have "((f # fs) ! Suc i) e (ws ! Suc i) = (Ret True, ws ! Suc (Suc i))"
      by blast
    then show "(fs ! i) e (ws' ! i) = (Ret True, ws' ! Suc i)" using ws by simp
  qed
  from Cons.IH [OF len rest] step show ?case
    using ws by (simp add: seq_def)
qed

lemma filtersLoop_rejects:
  assumes "f \<in> set fs" and "\<forall>w. fst (f e w) = Ret False"
    and "\<forall>g\<in>set fs. \<forall>w. \<exists>b. fst (g e w) = Ret b"
  shows "fst (filtersLoop fs e w) = Ret False"
  using assms
proof (induction fs arbitrary: w)
  case Nil
  then show ?case by simp
next
  case (Cons g gs)
  obtain r w1 where g: "g e w = (r, w1)" by (cases "g e w")
  from Cons.prems(3) obtain b where b: "fst (g e w) = Ret b" by fastforce
  show ?case
  proof (cases b)
    case False
    with b g show ?thesis by (simp add: seq_def ret_def)
  next
    case True
    with Cons.prems(2) b have "f \<noteq> g" by auto
    with Cons.prems(1) have "f \<in> set gs" by simp
    with Cons have "fst (filtersLoop gs e w1) = Ret False" by simp
    with True b g show ?thesis by (simp add: seq_def)
  qed
qed

lemma filtersLoop_accepts:
  assumes "\<forall>g\<in>set fs. \<forall>w. fst (g e w) = Ret True"
  shows "fst (filtersLoop fs e w) = Ret True"
  using assms
proof (induction fs arbitrary: w)
  case Nil
  then show ?case by (simp add: ret_def)
next
  case (Cons g gs)
  obtain r w1 where g: "g e w = (r, w1)" by (cases "g e w")
  with Cons.prems have "r = Ret True" by (metis fst_conv list.set_intros(1))
  with g Cons show ?case by (simp add: seq_def)
qed

lemma engineB_fields:
  "filters engineB = [logFilter ''filter1'' True, logFilter ''filter2'' False, logFilter ''filter3'' True]"
  "tryFunc engineB = Some (raising (ErrorVal (errorOf 500 ''server error'')))"
  by (simp_all add: engineB_def engineOf_def Run_def try_Index_def Filter_def Catch_def Unknown_def
      FallbackErrorIndex_def)

text \<open>
  C9. \<open>Filter\<close> puts a filter behind those already registered, and the filters are called
  in that order. Let the filters be \<open>before @ f # after\<close>, let the filters of \<open>before\<close>,
  called one after the other from the world \<open>ws ! 0\<close>, each return true (the \<open>i\<close>-th one
  takes the world \<open>ws ! i\<close> to \<open>ws ! Suc i\<close>), and let \<open>f\<close>, called next, return false and
  leave \<open>w2\<close>. Then the loop ends there: \<open>executeHandlers\<close> answers \<open>handled = false\<close>,
  \<open>filtered = true\<close> in the world \<open>w2\<close>, which carries the effects of \<open>before\<close> and of
  \<open>f\<close> and nothing of \<open>after\<close>, whatever the filters of \<open>after\<close> are.
\<close>

theorem filters_left_to_right:
  "(filters ts = before @ f # after \<and>
    length ws = Suc (length before) \<and>
    (\<forall>i<length before. (before ! i) e (ws ! i) = (Ret True, ws ! Suc i)) \<and>
    f e (ws ! length before) = (Ret False, w2) \<longrightarrow>
      filtersLoop (filters ts) e (ws ! 0) = (Ret False, w2) \<and>
      executeHandlers ts e (ws ! 0) = (Ret (False, True), w2)) \<and>
   (r < length s \<longrightarrow> filters (snd (Filter r (Some g) s) ! r) = filters (s ! r) @ [g])"
proof (intro conjI impI)
  assume a: "filters ts = before @ f # after \<and>
    length ws = Suc (length before) \<and>
    (\<forall>i<length before. (before ! i) e (ws ! i) = (Ret True, ws ! Suc i)) \<and>
    f e (ws ! length before) = (Ret False, w2)"
  then have pass: "filtersLoop before e (ws ! 0) = (Ret True, ws ! length before)"
    using filtersLoop_chain by blast
  show loop: "filtersLoop (filters ts) e (ws ! 0) = (Ret False, w2)"
    using pass a by (simp add: filtersLoop_append seq_def ret_def)
  then show "executeHandlers ts e (ws ! 0) = (Ret (False, True), w2)"
    by (simp add: executeHandlers_def seq_def ret_def)
next
  assume "r < length s"
  then show "filters (snd (Filter r (Some g) s) ! r) = filters (s ! r) @ [g]"
    by (simp add: Filter_def)
qed

text \<open>
  C9 on three filters of which the second returns false: the first two are called, in
  that order, and the third is not.
\<close>

theorem filters_left_to_right_witness:
  "filters engineB =
     [logFilter ''filter1'' True] @ logFilter ''filter2'' False # [logFilter ''filter3'' True] \<and>
   executeHandlers engineB (errorOf 500 ''server error'') w0 =
     (Ret (False, True), \<lparr>heap = [], vars = [''filter1'', ''filter2'']\<rparr>) \<and>
   filters (snd (Filter 0 (Some (logFilter ''filter2'' False))
                  (snd (Filter 0 (Some (logFilter ''filter1'' True)) (snd (Run None []))))) ! 0) =
     [logFilter ''filter1'' True, logFilter ''filter2'' False]"
  using filters_left_to_right [of engineB "[logFilter ''filter1'' True]" "logFilter ''filter2'' False"
      "[logFilter ''filter3'' True]" "[w0, \<lparr>heap = [], vars = [''filter1'']\<rparr>]"
      "errorOf 500 ''server error''" "\<lparr>heap = [], vars = [''filter1'', ''filter2'']\<rparr>" 0
      "snd (Filter 0 (Some (logFilter ''filter1'' True)) (snd (Run None [])))"
      "logFilter ''filter2'' False"]
  by (simp add: engineB_fields logFilter_def w0_def Filter_def Run_def)

section \<open>Properties of execution\<close>

lemma Finally_Do: "Finally ts finally rt w = thenFinalizer finally (Do ts rt w)"
  by (auto simp: Finally_def Do_def thenFinalizer_def deferFinally_def Let_def
      split: prod.splits option.splits result.splits)

lemma Finally_cases:
  assumes "Do ts rt w = (r, w2)"
  shows "Finally ts None rt w = (r, w2) \<and>
         (f w2 = (Ret u, w3) \<longrightarrow> Finally ts (Some f) rt w = (r, w3)) \<and>
         (f w2 = (Panic q, w3) \<longrightarrow> Finally ts (Some f) rt w = (Panic q, w3))"
  using assms by (simp add: Finally_Do thenFinalizer_def)

lemma Do_returns:
  "callFunc (tryFunc ts) w = (Ret u, w1) \<Longrightarrow> Do ts rt w = (Ret (), w1)"
  by (simp add: Do_def Finally_def deferRecover_def deferFinally_def)

lemma Do_pass:
  "callFunc (tryFunc ts) w = (Panic PassVal, w1) \<Longrightarrow> Do ts rt w = (Ret (), w1)"
  by (simp add: Do_def Finally_def deferRecover_def deferFinally_def)

lemma Do_dispatch:
  assumes "callFunc (tryFunc ts) w = (Panic p, w1)" and "p \<noteq> PassVal"
    and "normalizeError rt p w1 = (e, w1')"
  shows "Do ts rt w =
           (case executeHandlers ts e w1' of
              (Panic q, w2) \<Rightarrow> (Panic q, w2)
            | (Ret (handled, filtered), w2) \<Rightarrow>
                if \<not> handled \<and> \<not> filtered then (Panic (ErrorVal e), w2) else (Ret (), w2))"
  using assms
  by (cases p)
     (auto simp: Do_def Finally_def deferRecover_def deferFinally_def
       split: prod.splits result.splits)

lemma Do_filtered:
  assumes "callFunc (tryFunc ts) w = (Panic p, w1)" and "p \<noteq> PassVal"
    and "normalizeError rt p w1 = (e, w1')"
    and "filtersLoop (filters ts) e w1' = (Ret False, w2)"
  shows "Do ts rt w = (Ret (), w2)"
  using assms(4) by (simp add: Do_dispatch [OF assms(1-3)] executeHandlers_def seq_def ret_def)

lemma executeHandlers_unhandled:
  assumes "filtersLoop (filters ts) e w = (Ret True, w2)" and "resolutionOrder ts e = []"
  shows "executeHandlers ts e w = (Ret (False, False), w2)"
  using assms
  by (auto simp: executeHandlers_def resolutionOrder_def seq_def ret_def
      split: option.splits if_splits)

lemma Do_unhandled:
  assumes "callFunc (tryFunc ts) w = (Panic p, w1)" and "p \<noteq> PassVal"
    and "normalizeError rt p w1 = (e, w1')"
    and "filtersLoop (filters ts) e w1' = (Ret True, w2)"
    and "resolutionOrder ts e = []"
  shows "Do ts rt w = (Panic (ErrorVal e), w2)"
  by (simp add: Do_dispatch [OF assms(1-3)] executeHandlers_unhandled [OF assms(4,5)])

lemma normalizeError_ErrorVal [simp]: "normalizeError rt (ErrorVal e) w = (e, w)"
  by (simp add: normalizeError_def)

lemma resolutionOrder_tryFunc [simp]:
  "resolutionOrder (ts\<lparr>tryFunc := b\<rparr>) e = resolutionOrder ts e"
  by (simp add: resolutionOrder_def split: option.splits)

lemma nested_reraise:
  assumes "fst (callFunc block w) = Panic (ErrorVal e)"
    and "\<forall>(ts, finally, rt)\<in>set levels.
           resolutionOrder ts e = [] \<and>
           (\<forall>g\<in>set (filters ts). \<forall>w. fst (g e w) = Ret True) \<and>
           (\<forall>f. finally = Some f \<longrightarrow> (\<forall>w. fst (f w) = Ret ()))"
  shows "fst (callFunc (nested levels block) w) = Panic (ErrorVal e)"
  using assms(2)
proof (induction levels)
  case Nil
  then show ?case using assms(1) by simp
next
  case (Cons l levels)
  obtain ts fin rt where l: "l = (ts, fin, rt)" by (cases l)
  let ?ts = "ts\<lparr>tryFunc := nested levels block\<rparr>"
  from Cons have "fst (callFunc (nested levels block) w) = Panic (ErrorVal e)" by simp
  then obtain w1 where inner: "callFunc (tryFunc ?ts) w = (Panic (ErrorVal e), w1)"
    by (cases "callFunc (nested levels block) w") simp
  from Cons.prems l have quiet: "resolutionOrder ?ts e = []"
    and acc: "\<forall>g\<in>set (filters ?ts). \<forall>w. fst (g e w) = Ret True"
    and fin: "\<forall>f. fin = Some f \<longrightarrow> (\<forall>w. fst (f w) = Ret ())"
    by auto
  from acc have "fst (filtersLoop (filters ?ts) e w1) = Ret True"
    by (rule filtersLoop_accepts)
  then obtain w2 where pass: "filtersLoop (filters ?ts) e w1 = (Ret True, w2)"
    by (cases "filtersLoop (filters ?ts) e w1") simp
  have unhandled: "Do ?ts rt w = (Panic (ErrorVal e), w2)"
    by (rule Do_unhandled [OF inner _ _ pass quiet]) simp_all
  have "fst (Finally ?ts fin rt w) = Panic (ErrorVal e)"
  proof (cases fin)
    case None
    with unhandled show ?thesis
      by (simp add: Finally_Do thenFinalizer_def)
  next
    case (Some f)
    with fin have "fst (f w2) = Ret ()" by simp
    then obtain w3 where "f w2 = (Ret (), w3)" by (cases "f w2") simp
    with Some unhandled show ?thesis
      by (simp add: Finally_Do thenFinalizer_def)
  qed
  with l show ?case by (simp add: callFunc_def)
qed

lemma engineC_fields:
  "specificHandlers engineC 500 = None"
  "groupHandlers engineC 500 = None"
  "fallbackHandler engineC = None"
  "globalHandler engineC = None"
  "filters engineC = [logFilter ''filter'' True]"
  "tryFunc engineC = Some (raising (ErrorVal (errorOf 500 ''server error'')))"
  by (simp_all add: engineC_def engineOf_def Run_def try_Index_def Group_def Filter_def
      FallbackErrorIndex_def)

lemma engineP_fields:
  "tryFunc engineP = Some (raising PassVal)"
  by (simp_all add: engineP_def engineOf_def Run_def Catch_def Unknown_def)

lemma engineN_fields:
  "tryFunc engineN = Some (logFunc ''block'')"
  by (simp_all add: engineN_def engineOf_def Run_def Catch_def Unknown_def)

lemma engineF_fields:
  "specificHandlers engineF = Map.empty"
  "groupHandlers engineF = Map.empty"
  "fallbackHandler engineF = Some (logH ''unknown'')"
  "globalHandler engineF = Some (logH ''catch'')"
  "filters engineF = [logFilter ''filter'' False]"
  "tryFunc engineF = Some (raising (OtherVal boom))"
  by (simp_all add: engineF_def engineOf_def Run_def Filter_def Catch_def Unknown_def)

lemma Do_engineA:
  "Do engineA rt0 w0 =
     (Ret (), \<lparr>heap = [], vars = [''block'', ''index'', ''group1'', ''group2'', ''catch'']\<rparr>)"
  by (simp add: Do_def Finally_def deferRecover_def deferFinally_def engineA_fields callFunc_def
      raising_def w0_def normalizeError_def executeHandlers_def seq_def ret_def logH_def errorOf_def)

lemma Do_engineB:
  "Do engineB rt0 w0 = (Ret (), \<lparr>heap = [], vars = [''block'', ''filter1'', ''filter2'']\<rparr>)"
  by (simp add: Do_def Finally_def deferRecover_def deferFinally_def engineB_fields callFunc_def
      raising_def w0_def normalizeError_def executeHandlers_def seq_def ret_def logFilter_def)

lemma Do_engineC:
  "Do engineC rt0 w0 =
     (Panic (ErrorVal (errorOf 500 ''server error'')), \<lparr>heap = [], vars = [''block'', ''filter'']\<rparr>)"
  by (simp add: Do_def Finally_def deferRecover_def deferFinally_def engineC_fields callFunc_def
      raising_def w0_def normalizeError_def executeHandlers_def seq_def ret_def logFilter_def
      errorOf_def)

lemma Do_engineP:
  "Do engineP rt0 w0 = (Ret (), \<lparr>heap = [], vars = [''block'']\<rparr>)"
  by (simp add: Do_def Finally_def deferRecover_def deferFinally_def engineP_fields callFunc_def
      raising_def w0_def)

lemma Do_engineN:
  "Do engineN rt0 w0 = (Ret (), \<lparr>heap = [], vars = [''block'']\<rparr>)"
  by (simp add: Do_def Finally_def deferRecover_def deferFinally_def engineN_fields callFunc_def
      logFunc_def w0_def)

text \<open>
  C5. An execution with the finalizer \<open>f\<close> is the execution without finalizer (\<open>Do\<close>:
  block, recovery, normalization, filters, handlers, re-panic) followed by one call of
  \<open>f\<close> on the world that execution leaves. This holds without any condition, hence on
  every path: the block returned, the error was handled, it was filtered, the pass marker
  was raised, the error was re-raised, a handler or a filter panicked. The finalizer is
  thus called exactly once and nothing of the engine runs behind it; the outcome is that
  of the execution, unless the finalizer itself panics.
\<close>

theorem finalizer_runs_once_last:
  "Finally ts None rt w = Do ts rt w \<and>
   Finally ts (Some f) rt w =
     (case Do ts rt w of
        (r, w1) \<Rightarrow> (case f w1 of (Ret u, w2) \<Rightarrow> (r, w2) | (Panic q, w2) \<Rightarrow> (Panic q, w2)))"
  by (simp add: Finally_Do thenFinalizer_def split: prod.splits result.splits)

text \<open>
  C5 on the five paths: the block returns, the error is handled, it is filtered, the
  pass marker is raised, the error is re-raised. The finalizer's name is in the record
  once, at the end.
\<close>

theorem finalizer_runs_once_last_witness:
  "Finally engineN (Some (logFunc ''finally'')) rt0 w0 =
     (Ret (), \<lparr>heap = [], vars = [''block'', ''finally'']\<rparr>) \<and>
   Finally engineA (Some (logFunc ''finally'')) rt0 w0 =
     (Ret (), \<lparr>heap = [], vars = [''block'', ''index'', ''group1'', ''group2'', ''catch'', ''finally'']\<rparr>) \<and>
   Finally engineB (Some (logFunc ''finally'')) rt0 w0 =
     (Ret (), \<lparr>heap = [], vars = [''block'', ''filter1'', ''filter2'', ''finally'']\<rparr>) \<and>
   Finally engineP (Some (logFunc ''finally'')) rt0 w0 =
     (Ret (), \<lparr>heap = [], vars = [''block'', ''finally'']\<rparr>) \<and>
   Finally engineC (Some (logFunc ''finally'')) rt0 w0 =
     (Panic (ErrorVal (errorOf 500 ''server error'')),
      \<lparr>heap = [], vars = [''block'', ''filter'', ''finally'']\<rparr>)"
  using finalizer_runs_once_last [of engineN rt0 w0 "logFunc ''finally''"]
    finalizer_runs_once_last [of engineA rt0 w0 "logFunc ''finally''"]
    finalizer_runs_once_last [of engineB rt0 w0 "logFunc ''finally''"]
    finalizer_runs_once_last [of engineP rt0 w0 "logFunc ''finally''"]
    finalizer_runs_once_last [of engineC rt0 w0 "logFunc ''finally''"]
  by (simp add: Do_engineA Do_engineB Do_engineC Do_engineP Do_engineN logFunc_def)

text \<open>
  C6. When the block panics with \<open>throw.Pass{}\<close>, leaving the world \<open>w1\<close>, the execution
  without finalizer (\<open>Do\<close>, \<open>Finally(nil)\<close>) returns normally in the world \<open>w1\<close> itself:
  the store of maps has not grown (no normalization), no filter or handler has touched the
  world, and there is no panic in flight. With a finalizer \<open>f\<close>, \<open>f\<close> is called on \<open>w1\<close>
  and the execution returns normally when \<open>f\<close> returns; the only panic that can leave the
  call is one \<open>f\<close> raises itself.
\<close>

theorem pass_marker_is_swallowed:
  assumes "callFunc (tryFunc ts) w = (Panic PassVal, w1)"
  shows "Do ts rt w = (Ret (), w1) \<and>
         Finally ts None rt w = (Ret (), w1) \<and>
         (f w1 = (Ret u, w3) \<longrightarrow> Finally ts (Some f) rt w = (Ret (), w3)) \<and>
         (f w1 = (Panic q, w3) \<longrightarrow> Finally ts (Some f) rt w = (Panic q, w3))"
  using Do_pass [OF assms, of rt] Finally_cases [of ts rt w "Ret ()" w1 f u w3 q] by simp

text \<open>
  C6 on an engine with a fallback and a global handler whose block raises the marker:
  neither handler is called and the call returns.
\<close>

theorem pass_marker_is_swallowed_witness:
  "callFunc (tryFunc engineP) w0 = (Panic PassVal, \<lparr>heap = [], vars = [''block'']\<rparr>) \<and>
   Do engineP rt0 w0 = (Ret (), \<lparr>heap = [], vars = [''block'']\<rparr>) \<and>
   Finally engineP (Some (logFunc ''finally'')) rt0 w0 =
     (Ret (), \<lparr>heap = [], vars = [''block'', ''finally'']\<rparr>)"
  using pass_marker_is_swallowed [where ts = engineP and w = w0
      and ?w1.0 = "\<lparr>heap = [], vars = [''block'']\<rparr>" and rt = rt0
      and f = "logFunc ''finally''" and u = "()"
      and ?w3.0 = "\<lparr>heap = [], vars = [''block'', ''finally'']\<rparr>"]
  by (simp add: engineP_fields callFunc_def raising_def w0_def logFunc_def)

text \<open>
  C2. Let the block panic with a payload other than the pass marker and let \<open>e\<close> be the
  normalized error. If the filter loop ends on a filter that returned false, leaving the
  world \<open>w2\<close>, then \<open>executeHandlers\<close> answers \<open>handled = false\<close>, \<open>filtered = true\<close>
  in the world \<open>w2\<close> the filters left (no handler has been called on it), and the
  execution without finalizer returns normally in that world: the error is not re-raised.
  With a finalizer \<open>f\<close>, \<open>f\<close> is called on \<open>w2\<close> and the execution returns normally when
  \<open>f\<close> returns; the only panic that can leave the call is one \<open>f\<close> raises itself. The
  loop does end on a filter that returned false as soon as one registered filter returns
  false for \<open>e\<close> and the filters return.
\<close>

theorem filtered_error_is_discarded:
  assumes "callFunc (tryFunc ts) w = (Panic p, w1)" and "p \<noteq> PassVal"
    and "normalizeError rt p w1 = (e, w1')"
  shows "(filtersLoop (filters ts) e w1' = (Ret False, w2) \<longrightarrow>
            executeHandlers ts e w1' = (Ret (False, True), w2) \<and>
            Do ts rt w = (Ret (), w2) \<and>
            Finally ts None rt w = (Ret (), w2) \<and>
            (f w2 = (Ret u, w3) \<longrightarrow> Finally ts (Some f) rt w = (Ret (), w3)) \<and>
            (f w2 = (Panic q, w3) \<longrightarrow> Finally ts (Some f) rt w = (Panic q, w3))) \<and>
         ((\<exists>g\<in>set (filters ts). \<forall>w. fst (g e w) = Ret False) \<and>
          (\<forall>g\<in>set (filters ts). \<forall>w. \<exists>b. fst (g e w) = Ret b) \<longrightarrow>
            (\<exists>w4. filtersLoop (filters ts) e w1' = (Ret False, w4) \<and>
                  Do ts rt w = (Ret (), w4)))"
proof (intro conjI impI)
  assume rej: "filtersLoop (filters ts) e w1' = (Ret False, w2)"
  then show "executeHandlers ts e w1' = (Ret (False, True), w2)"
    by (simp add: executeHandlers_def seq_def ret_def)
  from rej have d: "Do ts rt w = (Ret (), w2)"
    by (rule Do_filtered [OF assms])
  then show "Do ts rt w = (Ret (), w2)" .
  from Finally_cases [OF d, of f u w3 q]
  show "Finally ts None rt w = (Ret (), w2)" by simp
  {
    assume "f w2 = (Ret u, w3)"
    with Finally_cases [OF d, of f u w3 q]
    show "Finally ts (Some f) rt w = (Ret (), w3)" by simp
  }
  {
    assume "f w2 = (Panic q, w3)"
    with Finally_cases [OF d, of f u w3 q]
    show "Finally ts (Some f) rt w = (Panic q, w3)" by simp
  }
next
  assume "(\<exists>g\<in>set (filters ts). \<forall>w. fst (g e w) = Ret False) \<and>
          (\<forall>g\<in>set (filters ts). \<forall>w. \<exists>b. fst (g e w) = Ret b)"
  then have "fst (filtersLoop (filters ts) e w1') = Ret False"
    using filtersLoop_rejects by blast
  then obtain w4 where rej: "filtersLoop (filters ts) e w1' = (Ret False, w4)"
    by (cases "filtersLoop (filters ts) e w1'") simp
  then have "Do ts rt w = (Ret (), w4)"
    by (rule Do_filtered [OF assms])
  with rej show "\<exists>w4. filtersLoop (filters ts) e w1' = (Ret False, w4) \<and>
                  Do ts rt w = (Ret (), w4)"
    by simp
qed

text \<open>
  C2 on an engine with a specific handler for the raised code, a fallback and a global
  handler, whose second filter returns false: none of the handlers is called and the call
  returns.
\<close>

theorem filtered_error_is_discarded_witness:
  "callFunc (tryFunc engineB) w0 =
     (Panic (ErrorVal (errorOf 500 ''server error'')), \<lparr>heap = [], vars = [''block'']\<rparr>) \<and>
   filtersLoop (filters engineB) (errorOf 500 ''server error'') \<lparr>heap = [], vars = [''block'']\<rparr> =
     (Ret False, \<lparr>heap = [], vars = [''block'', ''filter1'', ''filter2'']\<rparr>) \<and>
   Finally engineB (Some (logFunc ''finally'')) rt0 w0 =
     (Ret (), \<lparr>heap = [], vars = [''block'', ''filter1'', ''filter2'', ''finally'']\<rparr>) \<and>
   Do engineB rt0 w0 = (Ret (), \<lparr>heap = [], vars = [''block'', ''filter1'', ''filter2'']\<rparr>)"
  using filtered_error_is_discarded [where ts = engineB and w = w0
      and p = "ErrorVal (errorOf 500 ''server error'')"
      and ?w1.0 = "\<lparr>heap = [], vars = [''block'']\<rparr>" and rt = rt0
      and e = "errorOf 500 ''server error''"
      and w1' = "\<lparr>heap = [], vars = [''block'']\<rparr>"
      and ?w2.0 = "\<lparr>heap = [], vars = [''block'', ''filter1'', ''filter2'']\<rparr>"
      and f = "logFunc ''finally''" and u = "()"
      and ?w3.0 = "\<lparr>heap = [], vars = [''block'', ''filter1'', ''filter2'', ''finally'']\<rparr>"]
  by (simp add: engineB_fields callFunc_def raising_def w0_def seq_def ret_def logFilter_def
      logFunc_def)

text \<open>
  C3. Let the block panic with a payload other than the pass marker, let \<open>e\<close> be the
  normalized error, let every filter return true (the loop ends normally, leaving \<open>w2\<close>)
  and let no handler be there to call for \<open>e\<close> (no specific handler and no group handler
  for its code, no fallback, no global handler). Then the execution without finalizer
  panics with \<open>e\<close> itself, the same code, message, stack and context, in the world the
  filters left. With a finalizer \<open>f\<close>, \<open>f\<close> is called on that world and the execution
  panics with \<open>e\<close> when \<open>f\<close> returns; only a panic that \<open>f\<close> raises itself takes its
  place. Through any number of nested engines that have no handler for \<open>e\<close>, whose filters
  return true for \<open>e\<close> and whose finalizers return, the outermost call panics with \<open>e\<close>
  itself.
\<close>

theorem unhandled_error_is_reraised:
  "(callFunc (tryFunc ts) w = (Panic p, w1) \<and> p \<noteq> PassVal \<and>
    normalizeError rt p w1 = (e, w1') \<and>
    filtersLoop (filters ts) e w1' = (Ret True, w2) \<and>
    resolutionOrder ts e = [] \<longrightarrow>
      Do ts rt w = (Panic (ErrorVal e), w2) \<and>
      Finally ts None rt w = (Panic (ErrorVal e), w2) \<and>
      (f w2 = (Ret u, w3) \<longrightarrow> Finally ts (Some f) rt w = (Panic (ErrorVal e), w3)) \<and>
      (f w2 = (Panic q, w3) \<longrightarrow> Finally ts (Some f) rt w = (Panic q, w3))) \<and>
   (fst (callFunc block w) = Panic (ErrorVal e) \<and>
    (\<forall>(ts, finally, rt)\<in>set levels.
       resolutionOrder ts e = [] \<and>
       (\<forall>g\<in>set (filters ts). \<forall>w. fst (g e w) = Ret True) \<and>
       (\<forall>f. finally = Some f \<longrightarrow> (\<forall>w. fst (f w) = Ret ()))) \<longrightarrow>
      fst (callFunc (nested levels block) w) = Panic (ErrorVal e))"
proof (intro conjI impI)
  assume a: "callFunc (tryFunc ts) w = (Panic p, w1) \<and> p \<noteq> PassVal \<and>
    normalizeError rt p w1 = (e, w1') \<and>
    filtersLoop (filters ts) e w1' = (Ret True, w2) \<and>
    resolutionOrder ts e = []"
  then have d: "Do ts rt w = (Panic (ErrorVal e), w2)"
    using Do_unhandled by blast
  then show "Do ts rt w = (Panic (ErrorVal e), w2)" .
  from Finally_cases [OF d, of f u w3 q]
  show "Finally ts None rt w = (Panic (ErrorVal e), w2)" by simp
  {
    assume "f w2 = (Ret u, w3)"
    with Finally_cases [OF d, of f u w3 q]
    show "Finally ts (Some f) rt w = (Panic (ErrorVal e), w3)" by simp
  }
  {
    assume "f w2 = (Panic q, w3)"
    with Finally_cases [OF d, of f u w3 q]
    show "Finally ts (Some f) rt w = (Panic q, w3)" by simp
  }
next
  assume "fst (callFunc block w) = Panic (ErrorVal e) \<and>
    (\<forall>(ts, finally, rt)\<in>set levels.
       resolutionOrder ts e = [] \<and>
       (\<forall>g\<in>set (filters ts). \<forall>w. fst (g e w) = Ret True) \<and>
       (\<forall>f. finally = Some f \<longrightarrow> (\<forall>w. fst (f w) = Ret ())))"
  then show "fst (callFunc (nested levels block) w) = Panic (ErrorVal e)"
    using nested_reraise by blast
qed

text \<open>
  C3 on an engine that has handlers for 404 only, while the block raises 500: the call
  panics with the error raised, also through a second engine around the first.
\<close>

theorem unhandled_error_is_reraised_witness:
  "callFunc (tryFunc engineC) w0 =
     (Panic (ErrorVal (errorOf 500 ''server error'')), \<lparr>heap = [], vars = [''block'']\<rparr>) \<and>
   resolutionOrder engineC (errorOf 500 ''server error'') = [] \<and>
   Do engineC rt0 w0 =
     (Panic (ErrorVal (errorOf 500 ''server error'')), \<lparr>heap = [], vars = [''block'', ''filter'']\<rparr>) \<and>
   Finally engineC (Some (logFunc ''finally'')) rt0 w0 =
     (Panic (ErrorVal (errorOf 500 ''server error'')),
      \<lparr>heap = [], vars = [''block'', ''filter'', ''finally'']\<rparr>) \<and>
   fst (callFunc
         (nested [(engineC, Some (logFunc ''outer finally''), rt0), (engineC, None, rt0)]
            (Some (raising (ErrorVal (errorOf 500 ''server error''))))) w0) =
     Panic (ErrorVal (errorOf 500 ''server error''))"
  using unhandled_error_is_reraised [where ts = engineC and w = w0
      and p = "ErrorVal (errorOf 500 ''server error'')"
      and ?w1.0 = "\<lparr>heap = [], vars = [''block'']\<rparr>" and rt = rt0
      and e = "errorOf 500 ''server error''"
      and w1' = "\<lparr>heap = [], vars = [''block'']\<rparr>"
      and ?w2.0 = "\<lparr>heap = [], vars = [''block'', ''filter'']\<rparr>"
      and f = "logFunc ''finally''" and u = "()"
      and ?w3.0 = "\<lparr>heap = [], vars = [''block'', ''filter'', ''finally'']\<rparr>"
      and block = "Some (raising (ErrorVal (errorOf 500 ''server error'')))"
      and levels = "[(engineC, Some (logFunc ''outer finally''), rt0), (engineC, None, rt0)]"]
  by (simp add: engineC_fields resolutionOrder_def callFunc_def raising_def w0_def seq_def ret_def
      logFilter_def logFunc_def errorOf_def)

lemma executeHandlers_fallback:
  assumes "filtersLoop (filters ts) e w = (Ret True, w1)"
    and "specificHandlers ts (Index e) = None" and "groupHandlers ts (Index e) = None"
    and "fallbackHandler ts = Some fb"
  shows "executeHandlers ts e w =
           afterHandlers True
             (invokeAll (fb # (case globalHandler ts of Some g \<Rightarrow> [g] | None \<Rightarrow> [])) e w1)"
  using assms
  by (auto simp: executeHandlers_def seq_def ret_def afterHandlers_def
      split: option.splits prod.splits result.splits)

lemma Do_fallback_global:
  assumes "callFunc (tryFunc ts) w = (Panic p, w0')" and "p \<noteq> PassVal"
    and "normalizeError rt p w0' = (e, w1)"
    and "filtersLoop (filters ts) e w1 = (Ret True, w2)"
    and "specificHandlers ts (Index e) = None" and "groupHandlers ts (Index e) = None"
    and "fallbackHandler ts = Some fb" and "globalHandler ts = Some g"
    and "fb e w2 = (Ret u, w3)" and "g e w3 = (Ret u', w4)"
  shows "Do ts rt w = (Ret (), w4)"
  using assms(9,10)
  by (simp add: Do_dispatch [OF assms(1-3)] executeHandlers_fallback [OF assms(4-7)] assms(8)
      afterHandlers_def)

text \<open>
  C7, as the code has it. A recovered value that is not a \<open>throw.Error\<close> is normalized to
  an error with code \<open>FallbackErrorIndex\<close>, the message
  \<open>unexpected panic: <value> (type: <dynamic type>)\<close>, the stack captured at that moment
  and a newly made, empty context map; a \<open>throw.Error\<close> is returned as it is and the world
  is untouched. For an engine made by \<open>Run\<close> and a chain of registrations that has a
  fallback handler, and provided no filter rejects the normalized error (the filter loop
  ends normally, leaving \<open>w2\<close>), \<open>executeHandlers\<close> calls the fallback handler first and
  then the global handler if there is one, and answers \<open>handled = true\<close>; when the block
  raised that value and the engine has a global handler too, the fallback handler and then
  the global handler are called and the execution returns normally.
\<close>

theorem unclassified_is_normalized:
  "normalizeError rt (OtherVal r) w =
     (\<lparr>Index = FallbackErrorIndex,
       Message = ''unexpected panic: '' @ fmt_v r @ '' (type: '' @ fmt_T r @ '')'',
       Stack = GetPanicStack rt,
       Context = Some (length (heap w))\<rparr>,
      w\<lparr>heap := heap w @ [Map.empty]\<rparr>) \<and>
   normalizeError rt (ErrorVal e0) w = (e0, w) \<and>
   (chain regs (Run tryHandler s0) = (ts, s) \<and>
    fallbackHandler (s ! ts) = Some fb \<and>
    normalizeError rt (OtherVal r) w = (e, w1) \<and>
    filtersLoop (filters (s ! ts)) e w1 = (Ret True, w2) \<longrightarrow>
      executeHandlers (s ! ts) e w1 =
        afterHandlers True
          (invokeAll (fb # (case globalHandler (s ! ts) of Some g \<Rightarrow> [g] | None \<Rightarrow> [])) e w2) \<and>
      (callFunc (tryFunc (s ! ts)) w' = (Panic (OtherVal r), w) \<and>
       globalHandler (s ! ts) = Some g \<and>
       fb e w2 = (Ret u, w3) \<and> g e w3 = (Ret u', w4) \<longrightarrow>
         Do (s ! ts) rt w' = (Ret (), w4)))"
proof (intro conjI impI)
  show n: "normalizeError rt (OtherVal r) w =
     (\<lparr>Index = FallbackErrorIndex,
       Message = ''unexpected panic: '' @ fmt_v r @ '' (type: '' @ fmt_T r @ '')'',
       Stack = GetPanicStack rt,
       Context = Some (length (heap w))\<rparr>,
      w\<lparr>heap := heap w @ [Map.empty]\<rparr>)"
    by (simp add: normalizeError_def makeMap_def)
  show "normalizeError rt (ErrorVal e0) w = (e0, w)"
    by (simp add: normalizeError_def)
  assume a: "chain regs (Run tryHandler s0) = (ts, s) \<and>
    fallbackHandler (s ! ts) = Some fb \<and>
    normalizeError rt (OtherVal r) w = (e, w1) \<and>
    filtersLoop (filters (s ! ts)) e w1 = (Ret True, w2)"
  from a n have idx: "Index e = FallbackErrorIndex" by auto
  from a Run_chain_invariant [of regs tryHandler s0]
  have "reservedFree (s ! ts)" by simp
  then have free: "specificHandlers (s ! ts) (Index e) = None"
    "groupHandlers (s ! ts) (Index e) = None"
    using idx by (simp_all add: reservedFree_def)
  with a show "executeHandlers (s ! ts) e w1 =
        afterHandlers True
          (invokeAll (fb # (case globalHandler (s ! ts) of Some g \<Rightarrow> [g] | None \<Rightarrow> [])) e w2)"
    using executeHandlers_fallback by blast
  assume b: "callFunc (tryFunc (s ! ts)) w' = (Panic (OtherVal r), w) \<and>
       globalHandler (s ! ts) = Some g \<and>
       fb e w2 = (Ret u, w3) \<and> g e w3 = (Ret u', w4)"
  show "Do (s ! ts) rt w' = (Ret (), w4)"
    using a b free Do_fallback_global [of "s ! ts" w' "OtherVal r" w rt e w1 w2 fb g u w3 u' w4]
    by simp
qed

text \<open>
  C7 as the specification states it fails: it puts no condition on the filters. Here the
  block panics with the string \<open>boom\<close>, a fallback and a global handler are registered,
  and the one filter returns false: the call returns and neither handler has been called.
\<close>

theorem unclassified_rejected_counterexample:
  "tryFunc engineF = Some (raising (OtherVal boom)) \<and>
   fallbackHandler engineF = Some (logH ''unknown'') \<and>
   globalHandler engineF = Some (logH ''catch'') \<and>
   Do engineF rt0 w0 = (Ret (), \<lparr>heap = [Map.empty], vars = [''block'', ''filter'']\<rparr>)"
  by (simp add: engineF_fields boom_def Do_def Finally_def deferRecover_def deferFinally_def
      callFunc_def raising_def w0_def normalizeError_def makeMap_def executeHandlers_def seq_def
      ret_def logFilter_def)

lemma chain_regsU:
  "chain regsU (Run (Some (raising (OtherVal boom))) []) =
     (0, [\<lparr>specificHandlers = Map.empty, groupHandlers = Map.empty,
           globalHandler = Some (logH ''catch''), fallbackHandler = Some (logH ''unknown''),
           tryFunc = Some (raising (OtherVal boom)), filters = [logFilter ''filter'' True]\<rparr>])"
  by (simp add: regsU_def Run_def try_Index_def Filter_def Catch_def Unknown_def)

lemma normalizeError_boom:
  "normalizeError rt0 (OtherVal boom) \<lparr>heap = [], vars = [''block'']\<rparr> =
     (\<lparr>Index = - 9223372036854775808, Message = ''unexpected panic: boom (type: string)'',
       Stack = ''goroutine 1 [running]'', Context = Some 0\<rparr>,
      \<lparr>heap = [Map.empty], vars = [''block'']\<rparr>)"
  by (simp add: normalizeError_def makeMap_def boom_def rt0_def GetPanicStack_def
      FallbackErrorIndex_def)

text \<open>
  C7, the amended statement on the same registrations with a filter that returns true (and
  an attempt to register a specific handler for \<open>FallbackErrorIndex\<close>): the fallback
  handler and then the global handler are called, and the call returns.
\<close>

theorem unclassified_is_normalized_witness:
  "normalizeError rt0 (OtherVal boom) \<lparr>heap = [], vars = [''block'']\<rparr> =
     (\<lparr>Index = - 9223372036854775808, Message = ''unexpected panic: boom (type: string)'',
       Stack = ''goroutine 1 [running]'', Context = Some 0\<rparr>,
      \<lparr>heap = [Map.empty], vars = [''block'']\<rparr>) \<and>
   normalizeError rt0 (ErrorVal (errorOf 404 ''not found'')) \<lparr>heap = [], vars = [''block'']\<rparr> =
     (errorOf 404 ''not found'', \<lparr>heap = [], vars = [''block'']\<rparr>) \<and>
   executeHandlers (snd (chain regsU (Run (Some (raising (OtherVal boom))) [])) ! 0)
     \<lparr>Index = - 9223372036854775808, Message = ''unexpected panic: boom (type: string)'',
       Stack = ''goroutine 1 [running]'', Context = Some 0\<rparr>
     \<lparr>heap = [Map.empty], vars = [''block'']\<rparr> =
     (Ret (True, False),
      \<lparr>heap = [Map.empty], vars = [''block'', ''filter'', ''unknown'', ''catch'']\<rparr>) \<and>
   Do (snd (chain regsU (Run (Some (raising (OtherVal boom))) [])) ! 0) rt0 w0 =
     (Ret (), \<lparr>heap = [Map.empty], vars = [''block'', ''filter'', ''unknown'', ''catch'']\<rparr>)"
  using unclassified_is_normalized [where rt = rt0 and r = boom
      and w = "\<lparr>heap = [], vars = [''block'']\<rparr>" and ?e0.0 = "errorOf 404 ''not found''"
      and regs = regsU and tryHandler = "Some (raising (OtherVal boom))" and ?s0.0 = "[]"
      and ts = 0 and s = "snd (chain regsU (Run (Some (raising (OtherVal boom))) []))"
      and fb = "logH ''unknown''"
      and e = "\<lparr>Index = - 9223372036854775808,
                Message = ''unexpected panic: boom (type: string)'',
                Stack = ''goroutine 1 [running]'', Context = Some 0\<rparr>"
      and ?w1.0 = "\<lparr>heap = [Map.empty], vars = [''block'']\<rparr>"
      and ?w2.0 = "\<lparr>heap = [Map.empty], vars = [''block'', ''filter'']\<rparr>"
      and w' = w0 and g = "logH ''catch''" and u = "()" and u' = "()"
      and ?w3.0 = "\<lparr>heap = [Map.empty], vars = [''block'', ''filter'', ''unknown'']\<rparr>"
      and ?w4.0 = "\<lparr>heap = [Map.empty], vars = [''block'', ''filter'', ''unknown'', ''catch'']\<rparr>"]
  by (simp add: chain_regsU normalizeError_boom seq_def ret_def logFilter_def logH_def
      afterHandlers_def callFunc_def raising_def w0_def)
     (simp add: boom_def rt0_def GetPanicStack_def FallbackErrorIndex_def)

section \<open>Scenarios of the specification and tests of the repository\<close>

lemmas run_defs = Do_def Finally_def deferRecover_def deferFinally_def callFunc_def
  normalizeError_def executeHandlers_def seq_def ret_def throw_Index_def

lemmas build_defs = engineOf_def Run_def try_Index_def Group_def Catch_def Unknown_def Filter_def
  FallbackErrorIndex_def

text \<open>
  \<open>onCode(404, h1)\<close> and \<open>onAny(h2)\<close>, code 404 raised: \<open>h1\<close> then \<open>h2\<close> run and the
  call returns.
\<close>

lemma scenario_code_then_any:
  "Do engineK rt0 w0 = (Ret (), \<lparr>heap = [], vars = [''h1'', ''h2'']\<rparr>)"
  by (simp add: engineK_def build_defs) (simp add: run_defs logH_def w0_def)

text \<open>
  \<open>onGroup({400, 401, 403, 404}, hg)\<close> and \<open>onAny(ha)\<close>, code 403 raised: \<open>hg\<close> then
  \<open>ha\<close> run.
\<close>

lemma scenario_group_then_any:
  "Do engineG rt0 w0 = (Ret (), \<lparr>heap = [], vars = [''hg'', ''ha'']\<rparr>)"
  by (simp add: engineG_def build_defs) (simp add: run_defs logH_def w0_def)

text \<open>\<open>TestTryUnknown\<close>: the handler for 404 is not called, the fallback and the global are.\<close>

lemma test_TryUnknown:
  "Do engineU rt0 w0 = (Ret (), \<lparr>heap = [], vars = [''unknown'', ''catch'']\<rparr>)"
  by (simp add: engineU_def build_defs) (simp add: run_defs logH_def w0_def)

text \<open>
  \<open>TestTryMultipleFilters\<close>: the second filter finds the context entry the raise attached,
  both filters return true and the handler is called.
\<close>

lemma test_TryMultipleFilters:
  "Do engineT rt0 w0 =
     (Ret (), \<lparr>heap = [[''userID'' \<mapsto> 123]], vars = [''filter1'', ''filter2'', ''handler'']\<rparr>)"
  by (simp add: engineT_def build_defs)
     (simp add: run_defs raiseForbidden_def throw_IndexWithContext_def makeMap_def mapAssign_def
       atLeast400_def hasUserID_def GetContext_def logH_def w0_def)

end
